theory Spec2Isabelle
  imports Complex_Main "HOL-Library.Word" "HOL-Library.Log_Nat"
begin

section \<open>JavaScript numbers\<close>

text \<open>
  The generator of \<^verbatim>\<open>qam_image_generator.js\<close> computes with JavaScript numbers.
  They are embedded as rationals together with the three non-finite values that the
  source can produce: \<open>Infinity\<close>, \<open>-Infinity\<close> and \<open>NaN\<close>. There is one zero only: a
  zero divisor counts as \<open>+0\<close>. The operations \<open>+\<close>, \<open>-\<close>, \<open>*\<close> and \<open>/\<close> defined first
  are exact; the rounding of binary64 is defined after them, and the operations that
  round their result are \<open>fadd\<close>, \<open>fsub\<close>, \<open>fmul\<close> and \<open>fdiv\<close>.
\<close>

datatype jsnum = Fin rat | PInf | NInf | NaN

text \<open>The sign of a non-NaN number, and the infinity (or NaN) that carries a given sign.\<close>

fun js_sign :: "jsnum \<Rightarrow> rat" where
  "js_sign (Fin a) = sgn a"
| "js_sign PInf = 1"
| "js_sign NInf = - 1"
| "js_sign NaN = 0"

definition inf_of_sign :: "rat \<Rightarrow> jsnum" where
  "inf_of_sign s = (if 0 < s then PInf else if s < 0 then NInf else NaN)"

instantiation jsnum :: "{plus, minus, uminus, times, inverse, ord}"
begin

fun uminus_jsnum :: "jsnum \<Rightarrow> jsnum" where
  "uminus_jsnum (Fin a) = Fin (- a)"
| "uminus_jsnum PInf = NInf"
| "uminus_jsnum NInf = PInf"
| "uminus_jsnum NaN = NaN"

fun plus_jsnum :: "jsnum \<Rightarrow> jsnum \<Rightarrow> jsnum" where
  "plus_jsnum (Fin a) (Fin b) = Fin (a + b)"
| "plus_jsnum NaN y = NaN"
| "plus_jsnum x NaN = NaN"
| "plus_jsnum PInf NInf = NaN"
| "plus_jsnum NInf PInf = NaN"
| "plus_jsnum PInf y = PInf"
| "plus_jsnum NInf y = NInf"
| "plus_jsnum (Fin a) y = y"

definition minus_jsnum :: "jsnum \<Rightarrow> jsnum \<Rightarrow> jsnum" where
  "minus_jsnum x y = x + (- y)"

fun times_jsnum :: "jsnum \<Rightarrow> jsnum \<Rightarrow> jsnum" where
  "times_jsnum (Fin a) (Fin b) = Fin (a * b)"
| "times_jsnum NaN y = NaN"
| "times_jsnum x NaN = NaN"
| "times_jsnum x y = inf_of_sign (js_sign x * js_sign y)"

fun divide_jsnum :: "jsnum \<Rightarrow> jsnum \<Rightarrow> jsnum" where
  "divide_jsnum (Fin a) (Fin b) = (if b = 0 then inf_of_sign a else Fin (a / b))"
| "divide_jsnum NaN y = NaN"
| "divide_jsnum x NaN = NaN"
| "divide_jsnum (Fin a) y = Fin 0"
| "divide_jsnum x (Fin b) = inf_of_sign (js_sign x * (if b < 0 then - 1 else 1))"
| "divide_jsnum x y = NaN"

definition inverse_jsnum :: "jsnum \<Rightarrow> jsnum" where
  "inverse_jsnum x = divide (Fin 1) x"

text \<open>Comparisons with \<open>NaN\<close> are false, as in the source language.\<close>

fun less_jsnum :: "jsnum \<Rightarrow> jsnum \<Rightarrow> bool" where
  "less_jsnum (Fin a) (Fin b) = (a < b)"
| "less_jsnum NaN y = False"
| "less_jsnum x NaN = False"
| "less_jsnum x NInf = False"
| "less_jsnum PInf y = False"
| "less_jsnum x y = True"

fun less_eq_jsnum :: "jsnum \<Rightarrow> jsnum \<Rightarrow> bool" where
  "less_eq_jsnum (Fin a) (Fin b) = (a \<le> b)"
| "less_eq_jsnum NaN y = False"
| "less_eq_jsnum x NaN = False"
| "less_eq_jsnum NInf y = True"
| "less_eq_jsnum x PInf = True"
| "less_eq_jsnum x y = False"

instance ..

end

text \<open>\<^verbatim>\<open>Math.max\<close>, \<^verbatim>\<open>Math.floor\<close> and \<^verbatim>\<open>Math.ceil\<close>.\<close>

fun Math_max :: "jsnum \<Rightarrow> jsnum \<Rightarrow> jsnum" where
  "Math_max NaN y = NaN"
| "Math_max x NaN = NaN"
| "Math_max x y = (if x < y then y else x)"

fun Math_floor :: "jsnum \<Rightarrow> jsnum" where
  "Math_floor (Fin a) = Fin (of_int \<lfloor>a\<rfloor>)"
| "Math_floor x = x"

fun Math_ceil :: "jsnum \<Rightarrow> jsnum" where
  "Math_ceil (Fin a) = Fin (of_int \<lceil>a\<rceil>)"
| "Math_ceil x = x"

text \<open>
  The remainder operator \<^verbatim>\<open>%\<close>: the result takes the sign of the dividend (the quotient
  is truncated towards zero), a zero divisor gives \<open>NaN\<close>.
\<close>

definition trunc :: "rat \<Rightarrow> int" where
  "trunc q = (if 0 \<le> q then \<lfloor>q\<rfloor> else \<lceil>q\<rceil>)"

fun js_rem :: "jsnum \<Rightarrow> jsnum \<Rightarrow> jsnum" where
  "js_rem (Fin a) (Fin b) = (if b = 0 then NaN else Fin (a - b * of_int (trunc (a / b))))"
| "js_rem NaN y = NaN"
| "js_rem x NaN = NaN"
| "js_rem (Fin a) y = Fin a"
| "js_rem x y = NaN"

text \<open>
  \<^verbatim>\<open>v | 0\<close> on an integer-valued number \<open>v\<close>: the value is reduced modulo \<open>2^32\<close> and read
  as a signed 32-bit integer.
\<close>

definition ToInt32 :: "int \<Rightarrow> int" where
  "ToInt32 k = sint (word_of_int k :: 32 word)"

subsection \<open>Rounding to binary64\<close>

text \<open>
  A number other than zero is rounded to the nearest multiple of \<open>2^(e - 52)\<close>, where
  \<open>2^e\<close> is the largest power of two not above its magnitude and \<open>e\<close> is at least \<open>-1022\<close>
  (below that the numbers are subnormal and keep the spacing \<open>2^(-1074)\<close>); a tie goes
  to the even multiple. A result of magnitude \<open>2^1024\<close> or more overflows to an infinity.
\<close>

definition expo :: "rat \<Rightarrow> int" where
  "expo v = (let (a, b) = quotient_of \<bar>v\<bar>; k = bitlen a - bitlen b
             in if 2 powi k \<le> \<bar>v\<bar> then k else k - 1)"

definition rne :: "rat \<Rightarrow> int" where
  "rne q = (let f = \<lfloor>q\<rfloor>; r = q - of_int f
            in if r < 1 / 2 then f else if 1 / 2 < r then f + 1
               else if even f then f else f + 1)"

definition b64 :: "rat \<Rightarrow> rat" where
  "b64 v = (if v = 0 then 0
            else let u = 2 powi (max (expo v) (- 1022) - 52)
                 in sgn v * of_int (rne (\<bar>v\<bar> / u)) * u)"

fun js_round :: "jsnum \<Rightarrow> jsnum" where
  "js_round (Fin a) = (let r = b64 a in if 2 ^ 1024 \<le> \<bar>r\<bar> then inf_of_sign r else Fin r)"
| "js_round x = x"

definition fadd :: "jsnum \<Rightarrow> jsnum \<Rightarrow> jsnum" where
  "fadd x y = js_round (x + y)"

definition fsub :: "jsnum \<Rightarrow> jsnum \<Rightarrow> jsnum" where
  "fsub x y = js_round (x - y)"

definition fmul :: "jsnum \<Rightarrow> jsnum \<Rightarrow> jsnum" where
  "fmul x y = js_round (x * y)"

definition fdiv :: "jsnum \<Rightarrow> jsnum \<Rightarrow> jsnum" where
  "fdiv x y = js_round (x / y)"

section \<open>Configuration and grid decoding\<close>

text \<open>
  The options hold finite numbers, and \<open>N\<close> an integer, as the constructor's comment
  describes them. Arithmetic among options alone is written on the rationals; a value
  enters the JavaScript numbers through \<open>Fin\<close> where a division or a decoded symbol
  takes part. The symbols of a sequence are integers.
\<close>

record options =
  N :: int
  PAD :: rat
  shift :: rat
  lineWidth :: rat
  lineColor :: string
  H_FIXED :: rat
  PIXEL_MARGIN :: rat

record cell =
  row :: jsnum
  col :: jsnum

text \<open>
  \<^verbatim>\<open>z = n - 1 | 0\<close>: the difference is rounded to binary64, which changes it only for an
  index outside \<open>-2^53 + 1 .. 2^53 + 1\<close>, and then coerced to 32 bits.
\<close>

definition z_of :: "int \<Rightarrow> int" where
  "z_of n = ToInt32 (trunc (b64 (of_int (n - 1))))"

text \<open>\<^verbatim>\<open>_rc(n)\<close>: \<^verbatim>\<open>z = n - 1 | 0; { row: Math.floor(z / N), col: z % N }\<close>.\<close>

definition rc :: "options \<Rightarrow> int \<Rightarrow> cell" where
  "rc opts n =
     (let z = Fin (of_int (z_of n));
          Nn = Fin (of_int (N opts))
      in \<lparr>row = Math_floor (z / Nn), col = js_rem z Nn\<rparr>)"

section \<open>Span of a sequence\<close>

text \<open>
  A sequence argument is \<open>None\<close> when the caller passes nothing (\<^verbatim>\<open>undefined\<close>) and
  \<open>Some xs\<close> for an array of integers. The fields \<^verbatim>\<open>min\<close> and \<^verbatim>\<open>max\<close> of the span
  object are named \<open>min_sp\<close> and \<open>max_sp\<close>.
\<close>

record span =
  min_sp :: jsnum
  max_sp :: jsnum

text \<open>
  The loop of \<^verbatim>\<open>_spanX\<close>, lines 69 to 75: the list holds the elements \<^verbatim>\<open>seq[i]\<close>,
  \<^verbatim>\<open>seq[i+1]\<close>, ... still to be visited.
\<close>

fun spanX_loop :: "options \<Rightarrow> int list \<Rightarrow> nat \<Rightarrow> jsnum \<Rightarrow> jsnum \<Rightarrow> span" where
  "spanX_loop opts [] i minX maxX = \<lparr>min_sp = minX, max_sp = maxX\<rparr>"
| "spanX_loop opts (n # ns) i minX maxX =
     (let c = col (rc opts n);
          s = Fin ((of_nat i + 1) / 4) * Fin (shift opts);
          v = (c + Fin 0.5) + s;
          minX' = (if v < minX then v else minX);
          maxX' = (if v > maxX then v else maxX)
      in spanX_loop opts ns (i + 1) minX' maxX')"

definition spanX :: "options \<Rightarrow> int list option \<Rightarrow> span" where
  "spanX opts seq =
     (case seq of
        None \<Rightarrow> \<lparr>min_sp = Fin 0.5, max_sp = Fin 0.5\<rparr>
      | Some xs \<Rightarrow>
          if length xs = 0 then \<lparr>min_sp = Fin 0.5, max_sp = Fin 0.5\<rparr>
          else spanX_loop opts xs 0 PInf NInf)"

section \<open>The generator\<close>

text \<open>
  The drawing context is a trace of the calls and property assignments made on it, oldest
  first. The canvas element keeps the four sizes the generator assigns; a CSS length
  \<^verbatim>\<open>v + "px"\<close> is kept as the number \<open>v\<close>, and a style property never assigned is
  \<open>None\<close>.
\<close>

datatype cmd =
    SetTransform rat rat rat rat rat rat
  | ClearRect jsnum jsnum jsnum jsnum
  | FillStyle string
  | FillRect jsnum jsnum jsnum jsnum
  | Save
  | StrokeStyle string
  | LineWidth rat
  | LineJoin string
  | LineCap string
  | BeginPath
  | MoveTo jsnum jsnum
  | QuadraticCurveTo jsnum jsnum jsnum jsnum
  | Stroke
  | Restore

record canvas =
  style_width :: "jsnum option"
  style_height :: "jsnum option"
  canvas_width :: jsnum
  canvas_height :: jsnum

record rstate =
  width :: jsnum
  height :: rat

record generator =
  canvas :: canvas
  ctx :: "cmd list"
  options :: options
  state :: rstate
  dpr :: rat

datatype error = CanvasRequired

text \<open>A canvas element as the host creates it: 300 by 150 pixels, no style sizes.\<close>

definition blank_canvas :: canvas where
  "blank_canvas = \<lparr>style_width = None, style_height = None,
     canvas_width = Fin 300, canvas_height = Fin 150\<rparr>"

text \<open>
  An options argument of the constructor or of \<^verbatim>\<open>setOptions\<close> names any subset of the
  fields; \<^verbatim>\<open>Object.assign\<close> overwrites exactly the fields that are present.
\<close>

record partial_options =
  N_opt :: "int option"
  PAD_opt :: "rat option"
  shift_opt :: "rat option"
  lineWidth_opt :: "rat option"
  lineColor_opt :: "string option"
  H_FIXED_opt :: "rat option"
  PIXEL_MARGIN_opt :: "rat option"

definition no_options :: partial_options where
  "no_options = \<lparr>N_opt = None, PAD_opt = None, shift_opt = None, lineWidth_opt = None,
     lineColor_opt = None, H_FIXED_opt = None, PIXEL_MARGIN_opt = None\<rparr>"

definition assign :: "options \<Rightarrow> partial_options \<Rightarrow> options" where
  "assign target src =
     \<lparr>N = (case N_opt src of None \<Rightarrow> N target | Some v \<Rightarrow> v),
      PAD = (case PAD_opt src of None \<Rightarrow> PAD target | Some v \<Rightarrow> v),
      shift = (case shift_opt src of None \<Rightarrow> shift target | Some v \<Rightarrow> v),
      lineWidth = (case lineWidth_opt src of None \<Rightarrow> lineWidth target | Some v \<Rightarrow> v),
      lineColor = (case lineColor_opt src of None \<Rightarrow> lineColor target | Some v \<Rightarrow> v),
      H_FIXED = (case H_FIXED_opt src of None \<Rightarrow> H_FIXED target | Some v \<Rightarrow> v),
      PIXEL_MARGIN =
        (case PIXEL_MARGIN_opt src of None \<Rightarrow> PIXEL_MARGIN target | Some v \<Rightarrow> v)\<rparr>"

definition default_options :: options where
  "default_options = \<lparr>N = 4, PAD = 2, shift = 1.0, lineWidth = 2, lineColor = ''#00e5ff'',
     H_FIXED = 256, PIXEL_MARGIN = 24\<rparr>"

text \<open>
  \<^verbatim>\<open>_syncDPR\<close>: \<^verbatim>\<open>Math.max(1, global.devicePixelRatio || 1)\<close>. The host's ratio is
  \<open>None\<close> when the host defines none; a ratio of zero is falsy and replaced by 1 as well.
\<close>

definition syncDPR :: "rat option \<Rightarrow> generator \<Rightarrow> generator" where
  "syncDPR devicePixelRatio g =
     g\<lparr>dpr := max 1 (case devicePixelRatio of
                        None \<Rightarrow> 1
                      | Some r \<Rightarrow> if r = 0 then 1 else r)\<rparr>"

text \<open>The constructor; \<^verbatim>\<open>canvas.getContext("2d")\<close> starts an empty trace.\<close>

definition new_generator :: "canvas \<Rightarrow> partial_options \<Rightarrow> rat option \<Rightarrow> generator" where
  "new_generator cv opts devicePixelRatio =
     (let os = assign default_options opts
      in syncDPR devicePixelRatio
           \<lparr>canvas = cv, ctx = [], options = os,
            state = \<lparr>width = Fin 256, height = H_FIXED os\<rparr>, dpr = 1\<rparr>)"

definition constructor ::
  "canvas option \<Rightarrow> partial_options \<Rightarrow> rat option \<Rightarrow> error + generator" where
  "constructor cv opts devicePixelRatio =
     (case cv of
        None \<Rightarrow> Inl CanvasRequired
      | Some c \<Rightarrow> Inr (new_generator c opts devicePixelRatio))"


text \<open>\<^verbatim>\<open>_chooseCanvasSize\<close>, lines 80 to 89.\<close>

definition chooseCanvasSize :: "int list option \<Rightarrow> generator \<Rightarrow> generator" where
  "chooseCanvasSize seq g =
     (let opts = options g;
          H = H_FIXED opts;
          step = Fin (H - 2 * PIXEL_MARGIN opts) / Fin (of_int (N opts) + PAD opts * 2);
          sp = spanX opts seq;
          symSpanX = Math_max (Fin (1 / 1000000)) ((max_sp sp - min_sp sp) + Fin (PAD opts * 2));
          W = Fin (2 * PIXEL_MARGIN opts) + step * symSpanX
      in g\<lparr>state := (state g)\<lparr>width := Math_ceil W, height := H\<rparr>\<rparr>)"

text \<open>\<^verbatim>\<open>_setupCanvas\<close>, lines 92 to 102.\<close>

definition setupCanvas :: "rat option \<Rightarrow> generator \<Rightarrow> generator" where
  "setupCanvas devicePixelRatio g =
     (let w = width (state g);
          h = Fin (height (state g));
          g1 = syncDPR devicePixelRatio g;
          d = dpr g1
      in g1\<lparr>canvas := (canvas g1)\<lparr>style_width := Some w, style_height := Some h,
                                     canvas_width := Math_floor (w * Fin d),
                                     canvas_height := Math_floor (h * Fin d)\<rparr>,
             ctx := ctx g1 @ [SetTransform d 0 0 d 0 0]\<rparr>)"

section \<open>Drawing\<close>

text \<open>A mapped point \<^verbatim>\<open>{ x, y }\<close>; its fields are named \<open>px\<close> and \<open>py\<close>.\<close>

record point =
  px :: jsnum
  py :: jsnum

text \<open>
  The mapping loop of \<^verbatim>\<open>_drawPolyline\<close>, lines 119 to 126; the list holds the elements
  from \<^verbatim>\<open>seq[i]\<close> on, and the result lists the points pushed from there on.
\<close>

fun map_points :: "options \<Rightarrow> jsnum \<Rightarrow> span \<Rightarrow> int list \<Rightarrow> nat \<Rightarrow> point list" where
  "map_points opts step sp [] i = []"
| "map_points opts step sp (n # ns) i =
     (let c = rc opts n;
          s = Fin ((of_nat i + 1) / 4) * Fin (shift opts);
          xSym = (col c + Fin 0.5) + s;
          u = Fin (PIXEL_MARGIN opts) + step * ((xSym - min_sp sp) + Fin (PAD opts));
          v = Fin (PIXEL_MARGIN opts) + step * (Fin (PAD opts) + row c + Fin 0.5)
      in \<lparr>px = u, py = v\<rparr> # map_points opts step sp ns (i + 1))"

text \<open>
  The smoothing loop, lines 135 to 139: it runs while \<^verbatim>\<open>i < pts.length - 2\<close>, written
  here as \<open>i + 2 < length pts\<close> since the loop index is a natural number.
\<close>

function quad_loop :: "point list \<Rightarrow> nat \<Rightarrow> cmd list" where
  "quad_loop pts i =
     (if i + 2 < length pts then
        (let xc = (px (pts ! i) + px (pts ! (i + 1))) / Fin 2;
             yc = (py (pts ! i) + py (pts ! (i + 1))) / Fin 2
         in QuadraticCurveTo (px (pts ! i)) (py (pts ! i)) xc yc # quad_loop pts (i + 1))
      else [])"
  by pat_completeness auto
termination
  by (relation "measure (\<lambda>(pts, i). length pts - i)") auto

declare quad_loop.simps [simp del]

text \<open>
  Lines 128 to 147, for a list of at least two points (the only case in which the source
  reaches them, so every index read is in range).
\<close>

definition stroke_path :: "options \<Rightarrow> point list \<Rightarrow> cmd list" where
  "stroke_path opts pts =
     [Save, StrokeStyle (lineColor opts), LineWidth (lineWidth opts),
      LineJoin ''round'', LineCap ''round'', BeginPath,
      MoveTo (px (pts ! 0)) (py (pts ! 0))]
     @ quad_loop pts 1
     @ [QuadraticCurveTo (px (pts ! (length pts - 2))) (py (pts ! (length pts - 2)))
          (px (pts ! (length pts - 1))) (py (pts ! (length pts - 1))),
        Stroke, Restore]"

text \<open>\<^verbatim>\<open>_drawPolyline\<close>, lines 105 to 148.\<close>

definition drawPolyline :: "int list option \<Rightarrow> generator \<Rightarrow> generator" where
  "drawPolyline seq g =
     (let opts = options g;
          step = Fin (height (state g) - 2 * PIXEL_MARGIN opts)
                   / Fin (of_int (N opts) + PAD opts * 2);
          sp = spanX opts seq;
          w = width (state g);
          h = Fin (height (state g));
          g1 = g\<lparr>ctx := ctx g @ [ClearRect (Fin 0) (Fin 0) w h, FillStyle ''#0b0f1a'',
                                 FillRect (Fin 0) (Fin 0) w h]\<rparr>
      in case seq of
           None \<Rightarrow> g1
         | Some xs \<Rightarrow>
             if length xs < 2 then g1
             else g1\<lparr>ctx := ctx g1 @ stroke_path opts (map_points opts step sp xs 0)\<rparr>)"

text \<open>\<^verbatim>\<open>render\<close>, lines 161 to 165; the host's device pixel ratio is read during the call.\<close>

definition render :: "int list option \<Rightarrow> rat option \<Rightarrow> generator \<Rightarrow> generator" where
  "render seq devicePixelRatio g =
     drawPolyline seq (setupCanvas devicePixelRatio (chooseCanvasSize seq g))"

text \<open>
  The array \<^verbatim>\<open>pts\<close> that \<^verbatim>\<open>_drawPolyline\<close> builds for an array \<open>xs\<close> on a generator
  \<open>g\<close>, and the quadratic segments of a trace as pairs of control point and end point.
\<close>

definition mapped_points :: "int list \<Rightarrow> generator \<Rightarrow> point list" where
  "mapped_points xs g =
     (let opts = options g;
          step = Fin (height (state g) - 2 * PIXEL_MARGIN opts)
                   / Fin (of_int (N opts) + PAD opts * 2);
          sp = spanX opts (Some xs)
      in map_points opts step sp xs 0)"

fun quad_segments :: "cmd list \<Rightarrow> (point \<times> point) list" where
  "quad_segments [] = []"
| "quad_segments (QuadraticCurveTo cx cy ex ey # cs) =
     (\<lparr>px = cx, py = cy\<rparr>, \<lparr>px = ex, py = ey\<rparr>) # quad_segments cs"
| "quad_segments (c # cs) = quad_segments cs"

text \<open>
  The points mapped during a \<^verbatim>\<open>render\<close> call: \<^verbatim>\<open>_drawPolyline\<close> runs on the generator
  that the two earlier steps leave.
\<close>

definition render_points :: "int list \<Rightarrow> rat option \<Rightarrow> generator \<Rightarrow> point list" where
  "render_points xs devicePixelRatio g =
     mapped_points xs (setupCanvas devicePixelRatio (chooseCanvasSize (Some xs) g))"

text \<open>
  The midpoint of two points, computed as the smoothing loop does, and the call
  \<^verbatim>\<open>quadraticCurveTo\<close> with a control point and an end point.
\<close>

definition midpoint :: "point \<Rightarrow> point \<Rightarrow> point" where
  "midpoint p q = \<lparr>px = (px p + px q) / Fin 2, py = (py p + py q) / Fin 2\<rparr>"

definition quad_to :: "point \<Rightarrow> point \<Rightarrow> cmd" where
  "quad_to c e = QuadraticCurveTo (px c) (py c) (px e) (py e)"

section \<open>The specification's formulas\<close>

text \<open>
  Following the specification's words for the size selector: the height is the fixed
  height, \<open>step = (height - 2*margin) / (N + 2*PAD)\<close>,
  \<open>symSpanX = max(epsilon, (span.max - span.min) + 2*PAD)\<close> and
  \<open>width = ceil(2*margin + step * symSpanX)\<close>, with \<open>epsilon = 1e-6\<close>.
\<close>

definition computeSize_spec :: "options \<Rightarrow> span \<Rightarrow> rstate" where
  "computeSize_spec config sp =
     (let margin = PIXEL_MARGIN config;
          h = H_FIXED config;
          step = Fin (h - 2 * margin) / Fin (of_int (N config) + 2 * PAD config);
          symSpanX = Math_max (Fin (1 / 1000000))
                       ((max_sp sp - min_sp sp) + Fin (2 * PAD config))
      in \<lparr>width = Math_ceil (Fin (2 * margin) + step * symSpanX), height = h\<rparr>)"


text \<open>
  Following the specification's words for the span calculator: the element at the
  1-based position \<open>i\<close>, with decoded column \<open>col\<close>, has the horizontal position
  \<open>x_i = (col + 0.5) + (i/4) * shift\<close>.
\<close>

definition x_at :: "options \<Rightarrow> int list \<Rightarrow> nat \<Rightarrow> jsnum" where
  "x_at opts xs i =
     (col (rc opts (xs ! (i - 1))) + Fin 0.5) + Fin (of_nat i / 4) * Fin (shift opts)"

section \<open>Bounds of the rounding error\<close>

text \<open>Half the spacing of the subnormal numbers.\<close>

definition tiny :: rat where
  "tiny = 2 powi (- 1075)"

section \<open>Rational values of the positions\<close>

text \<open>
  For the proofs: the decoded column as an integer, the horizontal position of the symbol
  \<open>n\<close> visited at the loop index \<open>i\<close> (counted from 0) as a rational, and the positions
  of a whole remaining list.
\<close>

definition col_int :: "options \<Rightarrow> int \<Rightarrow> int" where
  "col_int opts n = sgn (z_of n) * (\<bar>z_of n\<bar> mod \<bar>N opts\<bar>)"

definition xq :: "options \<Rightarrow> int \<Rightarrow> nat \<Rightarrow> rat" where
  "xq opts n i = (of_int (col_int opts n) + 1 / 2) + ((of_nat i + 1) / 4) * shift opts"

fun xqs :: "options \<Rightarrow> int list \<Rightarrow> nat \<Rightarrow> rat list" where
  "xqs opts [] i = []"
| "xqs opts (n # ns) i = xq opts n i # xqs opts ns (i + 1)"

section \<open>Auxiliary facts\<close>

subsection \<open>Binary64 rounding\<close>

lemma rne_err: "\<bar>rat_of_int (rne q) - q\<bar> \<le> 1 / 2"
proof -
  have "rat_of_int \<lfloor>q\<rfloor> \<le> q" "q < rat_of_int \<lfloor>q\<rfloor> + 1"
    by linarith+
  then show ?thesis
    by (auto simp: rne_def Let_def abs_le_iff)
qed

lemma rne_of_int [simp]: "rne (of_int j) = j"
  by (simp add: rne_def)

lemma expo_le:
  assumes "v \<noteq> 0"
  shows "2 powi (expo v) \<le> \<bar>v\<bar>"
proof -
  obtain a b where ab: "quotient_of \<bar>v\<bar> = (a, b)"
    by (cases "quotient_of \<bar>v\<bar>")
  then have b: "0 < b" and v: "\<bar>v\<bar> = of_int a / of_int b"
    using quotient_of_denom_pos quotient_of_div by blast+
  have "0 < rat_of_int a / of_int b"
    using assms v by (metis zero_less_abs_iff)
  then have a: "0 < a"
    using b by (simp add: zero_less_divide_iff)
  let ?k = "bitlen a - bitlen b"
  have "2 powi (?k - 1) \<le> \<bar>v\<bar>"
  proof -
    have la: "rat_of_int (2 ^ nat (bitlen a - 1)) \<le> of_int a"
      using bitlen_bounds [OF a] by (metis of_int_le_iff)
    have lb: "rat_of_int b \<le> of_int (2 ^ nat (bitlen b))"
      using bitlen_bounds [OF b] by (metis less_le of_int_le_iff)
    have pa: "1 \<le> bitlen a" and pb: "1 \<le> bitlen b"
      using a b bitlen_eq_zero_iff [of a] bitlen_eq_zero_iff [of b]
        bitlen_nonneg [of a] bitlen_nonneg [of b] by linarith+
    have "2 powi (?k - 1) = (2::rat) powi (bitlen a - 1) / 2 powi (bitlen b)"
      by (simp add: power_int_diff)
    also have "\<dots> = rat_of_int (2 ^ nat (bitlen a - 1)) / of_int (2 ^ nat (bitlen b))"
      using pa pb by (simp add: power_int_def)
    also have "\<dots> \<le> of_int a / of_int b"
      using la lb a b by (intro frac_le) simp_all
    finally show ?thesis
      by (simp add: v)
  qed
  then show ?thesis
    by (simp add: expo_def ab Let_def)
qed


lemma b64_err: "\<bar>b64 v - v\<bar> \<le> \<bar>v\<bar> / 2 ^ 53 + tiny"
proof (cases "v = 0")
  case True
  then show ?thesis by (simp add: b64_def tiny_def)
next
  case False
  let ?E = "max (expo v) (- 1022) - 52"
  let ?u = "(2::rat) powi ?E"
  let ?m = "rat_of_int (rne (\<bar>v\<bar> / ?u))"
  have u: "0 < ?u" by simp
  have b: "b64 v = sgn v * ?m * ?u"
    using False by (simp add: b64_def Let_def)
  have "b64 v - v = sgn v * (?m * ?u - \<bar>v\<bar>)"
    using mult_sgn_abs [of v] by (simp add: b algebra_simps)
  then have "\<bar>b64 v - v\<bar> = \<bar>?m * ?u - \<bar>v\<bar>\<bar>"
    using False by (simp add: abs_mult abs_sgn_eq)
  also have "?m * ?u - \<bar>v\<bar> = (?m - \<bar>v\<bar> / ?u) * ?u"
    using u by (simp add: algebra_simps)
  also have "\<bar>\<dots>\<bar> = \<bar>?m - \<bar>v\<bar> / ?u\<bar> * ?u"
    using u by (simp add: abs_mult)
  also have "\<dots> \<le> 1 / 2 * ?u"
    using u rne_err [of "\<bar>v\<bar> / ?u"] by (intro mult_right_mono) simp_all
  finally have 1: "\<bar>b64 v - v\<bar> \<le> ?u / 2" by simp
  have 2: "?u / 2 \<le> \<bar>v\<bar> / 2 ^ 53 + tiny"
  proof (cases "- 1022 \<le> expo v")
    case True
    then have "?u = 2 powi (expo v) / 2 ^ 52"
      by (simp add: max_def power_int_diff)
    also have "\<dots> \<le> \<bar>v\<bar> / 2 ^ 52"
      using expo_le [OF False] by (intro divide_right_mono) simp_all
    finally have "?u / 2 \<le> \<bar>v\<bar> / 2 ^ 53" by simp
    moreover have "0 \<le> tiny" by (simp add: tiny_def)
    ultimately show ?thesis by linarith
  next
    case False
    then have "?u = 2 powi (- 1074)"
      by (simp add: max_def)
    then have "?u / 2 = tiny"
      by (simp add: tiny_def power_int_minus)
    then show ?thesis by simp
  qed
  from 1 2 show ?thesis by linarith
qed

lemma b64_of_int:
  assumes "\<bar>k\<bar> \<le> 2 ^ 53"
  shows "b64 (of_int k) = of_int k"
proof (cases "k = 0")
  case True
  then show ?thesis by (simp add: b64_def)
next
  case False
  let ?v = "rat_of_int k"
  let ?e = "expo ?v"
  let ?E = "max ?e (- 1022) - 52"
  have v0: "?v \<noteq> 0" using False by simp
  have le: "2 powi ?e \<le> rat_of_int \<bar>k\<bar>"
    using expo_le [OF v0] by simp
  have k53: "rat_of_int \<bar>k\<bar> \<le> 2 ^ 53"
    using assms by (metis of_int_le_iff of_int_numeral of_int_power)
  have e53: "?e \<le> 53"
  proof (rule ccontr)
    assume "\<not> ?e \<le> 53"
    then have "(2::rat) powi 54 \<le> 2 powi ?e"
      by (intro power_int_increasing) simp_all
    with le k53 show False by simp
  qed
  have "\<exists>j. \<bar>?v\<bar> / 2 powi ?E = rat_of_int j"
  proof (cases "?e \<le> 52")
    case True
    then have "?E \<le> 0" by simp
    then have "\<bar>?v\<bar> / 2 powi ?E = rat_of_int (\<bar>k\<bar> * 2 ^ nat (- ?E))"
      by (simp add: power_int_def field_simps)
    then show ?thesis ..
  next
    case False
    with e53 have e: "?e = 53" by simp
    with le k53 have "rat_of_int \<bar>k\<bar> = 2 ^ 53" by simp
    then have "\<bar>?v\<bar> / 2 powi ?E = rat_of_int (2 ^ 52)"
      by (simp add: e)
    then show ?thesis ..
  qed
  then obtain j where j: "\<bar>?v\<bar> / 2 powi ?E = rat_of_int j" ..
  then have "rat_of_int j * 2 powi ?E = \<bar>?v\<bar>"
    by (metis nonzero_divide_eq_eq power_int_eq_0_iff zero_neq_numeral)
  then have "b64 ?v = sgn ?v * \<bar>?v\<bar>"
    using v0 by (simp add: b64_def Let_def j mult.assoc)
  then show ?thesis
    by (simp add: mult_sgn_abs)
qed

lemma trunc_of_int [simp]: "trunc (of_int k) = k"
  by (simp add: trunc_def)

lemma z_of_small: "\<bar>n - 1\<bar> \<le> 2 ^ 53 \<Longrightarrow> z_of n = ToInt32 (n - 1)"
  by (simp only: z_of_def b64_of_int trunc_of_int)

subsection \<open>Floors and ceilings of rational numerals\<close>

lemma floor_rat_numeral [simp]:
  "\<lfloor>numeral a / numeral b :: rat\<rfloor> = numeral a div numeral b"
  by (metis floor_divide_of_int_eq of_int_numeral)

lemma floor_rat_neg_numeral [simp]:
  "\<lfloor>- (numeral a / numeral b) :: rat\<rfloor> = - numeral a div numeral b"
  by (metis divide_minus_left floor_divide_of_int_eq of_int_neg_numeral of_int_numeral)

lemma ceiling_rat_numeral [simp]:
  "\<lceil>numeral a / numeral b :: rat\<rceil> = - (- numeral a div numeral b)"
  using ceiling_divide_eq_div [of "numeral a" "numeral b", where ?'a = rat] by simp

lemma ceiling_rat_neg_numeral [simp]:
  "\<lceil>- (numeral a / numeral b) :: rat\<rceil> = - (numeral a div numeral b)"
  using ceiling_divide_eq_div [of "- numeral a" "numeral b", where ?'a = rat] by simp

lemma floor_rat_one_div [simp]:
  "\<lfloor>1 / numeral b :: rat\<rfloor> = 1 div numeral b"
  by (metis floor_divide_of_int_eq of_int_1 of_int_numeral)

lemma floor_rat_neg_one_div [simp]:
  "\<lfloor>- (1 / numeral b) :: rat\<rfloor> = - 1 div numeral b"
  using floor_divide_of_int_eq [of "- 1" "numeral b", where ?'a = rat] by simp

lemma ceiling_rat_one_div [simp]:
  "\<lceil>1 / numeral b :: rat\<rceil> = - (- 1 div numeral b)"
  using ceiling_divide_eq_div [of 1 "numeral b", where ?'a = rat] by simp

lemma ceiling_rat_neg_one_div [simp]:
  "\<lceil>- (1 / numeral b) :: rat\<rceil> = - (1 div numeral b)"
  using ceiling_divide_eq_div [of "- 1" "numeral b", where ?'a = rat] by simp

subsection \<open>What each step leaves unchanged\<close>

lemma new_generator_options: "options (new_generator cv no_options d) = default_options"
  by (simp add: new_generator_def syncDPR_def assign_def no_options_def Let_def)

lemma new_generator_ctx: "ctx (new_generator cv po d) = []"
  by (simp add: new_generator_def syncDPR_def Let_def)



lemma state_setupCanvas: "state (setupCanvas d g) = state g"
  by (simp add: setupCanvas_def syncDPR_def Let_def)

lemma state_drawPolyline: "state (drawPolyline seq g) = state g"
  by (simp add: drawPolyline_def Let_def split: option.split)

lemma canvas_drawPolyline: "canvas (drawPolyline seq g) = canvas g"
  by (simp add: drawPolyline_def Let_def split: option.split)

lemma dpr_drawPolyline: "dpr (drawPolyline seq g) = dpr g"
  by (simp add: drawPolyline_def Let_def split: option.split)

lemma state_render: "state (render seq d g) = state (chooseCanvasSize seq g)"
  by (simp add: render_def state_drawPolyline state_setupCanvas)

subsection \<open>Decoding under the default configuration\<close>


lemma rc_default_1: "rc default_options 1 = \<lparr>row = Fin 0, col = Fin 0\<rparr>"
  by (simp add: rc_def default_options_def z_of_small ToInt32_def trunc_def Let_def)

lemma rc_default_6: "rc default_options 6 = \<lparr>row = Fin 1, col = Fin 1\<rparr>"
  by (simp add: rc_def default_options_def z_of_small ToInt32_def trunc_def Let_def)

lemma rc_default_11: "rc default_options 11 = \<lparr>row = Fin 2, col = Fin 2\<rparr>"
  by (simp add: rc_def default_options_def z_of_small ToInt32_def trunc_def Let_def)

lemmas render_defs = render_def drawPolyline_def setupCanvas_def chooseCanvasSize_def
  syncDPR_def spanX_def stroke_path_def mapped_points_def minus_jsnum_def Let_def

section \<open>Sizing\<close>

text \<open>
  C8. For every configuration and every sequence, the logical height after a render call
  is the configured fixed height \<open>H_FIXED\<close>: both the height kept in the generator's state
  and the style height assigned to the canvas, whatever the sequence, the host's pixel
  ratio and the generator's earlier state.
\<close>

theorem render_height_fixed:
  "height (state (render seq d g)) = H_FIXED (options g)
   \<and> style_height (canvas (render seq d g)) = Some (Fin (H_FIXED (options g)))"
  by (simp add: render_def state_drawPolyline canvas_drawPolyline state_setupCanvas)
     (simp add: setupCanvas_def syncDPR_def chooseCanvasSize_def Let_def)

text \<open>
  C6. For every sequence and configuration, the sizing step \<^verbatim>\<open>_chooseCanvasSize\<close> leaves
  in the state exactly the size the specification's formulas give for the span of the
  sequence: height \<open>H_FIXED\<close> and width \<open>ceil(2*margin + step * symSpanX)\<close> with
  \<open>step = (height - 2*margin) / (N + 2*PAD)\<close> and
  \<open>symSpanX = max(epsilon, (span.max - span.min) + 2*PAD)\<close>.
\<close>

theorem chooseCanvasSize_formula:
  "state (chooseCanvasSize seq g) = computeSize_spec (options g) (spanX (options g) seq)
   \<and> height (state (chooseCanvasSize seq g)) = H_FIXED (options g)
   \<and> width (state (chooseCanvasSize seq g)) =
       Math_ceil (Fin (2 * PIXEL_MARGIN (options g))
         + (Fin (H_FIXED (options g) - 2 * PIXEL_MARGIN (options g))
              / Fin (of_int (N (options g)) + 2 * PAD (options g)))
           * Math_max (Fin (1 / 1000000))
               ((max_sp (spanX (options g) seq) - min_sp (spanX (options g) seq))
                + Fin (2 * PAD (options g))))"
  by (simp add: chooseCanvasSize_def computeSize_spec_def Let_def mult.commute)

text \<open>
  C7. The constructor without options yields the default configuration \<open>N = 4\<close>,
  \<open>PAD = 2\<close>, \<open>shift = 1.0\<close>, margin 24, height 256, for which the step is 26. Rendering
  the one-element sequence \<open>[1]\<close> then computes the logical width 152, and rendering the
  empty sequence computes 152 as well and issues the transform, the clear and the
  background fill only: no path is drawn.
\<close>

theorem default_render_width_152:
  "options (new_generator cv no_options d) =
     \<lparr>N = 4, PAD = 2, shift = 1, lineWidth = 2, lineColor = ''#00e5ff'',
      H_FIXED = 256, PIXEL_MARGIN = 24\<rparr>
   \<and> Fin (H_FIXED default_options - 2 * PIXEL_MARGIN default_options)
         / Fin (of_int (N default_options) + PAD default_options * 2) = Fin 26
   \<and> width (state (render (Some [1]) d' (new_generator cv no_options d))) = Fin 152
   \<and> width (state (render (Some []) d' (new_generator cv no_options d))) = Fin 152
   \<and> ctx (render (Some []) d' (new_generator cv no_options d)) =
       [SetTransform (dpr (render (Some []) d' (new_generator cv no_options d))) 0 0
          (dpr (render (Some []) d' (new_generator cv no_options d))) 0 0,
        ClearRect (Fin 0) (Fin 0) (Fin 152) (Fin 256), FillStyle ''#0b0f1a'',
        FillRect (Fin 0) (Fin 0) (Fin 152) (Fin 256)]"
  by (simp add: render_defs new_generator_options new_generator_ctx rc_default_1)
     (simp add: default_options_def)

section \<open>The smoothed path\<close>

lemma quad_loop_map:
  "quad_loop pts i =
     map (\<lambda>j. quad_to (pts ! j) (midpoint (pts ! j) (pts ! (j + 1)))) [i..<length pts - 2]"
proof (induction pts i rule: quad_loop.induct)
  case (1 pts i)
  show ?case
  proof (cases "i + 2 < length pts")
    case True
    then have "[i..<length pts - 2] = i # [i + 1..<length pts - 2]"
      by (simp add: upt_conv_Cons)
    with True 1 show ?thesis
      by (subst quad_loop.simps) (simp add: Let_def quad_to_def midpoint_def)
  next
    case False
    then show ?thesis
      by (subst quad_loop.simps) simp
  qed
qed

lemma quad_segments_append: "quad_segments (cs @ ds) = quad_segments cs @ quad_segments ds"
  by (induction cs rule: quad_segments.induct) simp_all

lemma quad_segments_map_quad_to:
  "quad_segments (map (\<lambda>j. quad_to (f j) (h j)) js) = map (\<lambda>j. (f j, h j)) js"
  by (induction js) (simp_all add: quad_to_def)



text \<open>
  For a sequence of at least two symbols \<^verbatim>\<open>_drawPolyline\<close> appends the background
  commands and then the path through the mapped points.
\<close>

lemma ctx_drawPolyline:
  "2 \<le> length xs \<Longrightarrow>
     ctx (drawPolyline (Some xs) g) =
       ctx g @ [ClearRect (Fin 0) (Fin 0) (width (state g)) (Fin (height (state g))),
                FillStyle ''#0b0f1a'',
                FillRect (Fin 0) (Fin 0) (width (state g)) (Fin (height (state g)))]
             @ stroke_path (options g) (mapped_points xs g)"
  by (simp add: drawPolyline_def mapped_points_def Let_def)

text \<open>
  C2, as the code has it. For every list of \<open>n \<ge> 2\<close> mapped points the path starts at
  point 0; for every \<open>i\<close> from 1 to \<open>n - 3\<close> it has a quadratic segment with control
  point \<open>p_i\<close> and end point the midpoint of \<open>p_i\<close> and \<open>p_(i+1)\<close>; the final segment has
  the second-to-last point as control point and the last point as end point; and these
  are all its segments. The pair \<open>(p_0, p_1)\<close> gets no segment of its own: point 0 is only
  where the path starts.
\<close>

theorem stroke_path_segments:
  assumes "2 \<le> length pts"
  shows "stroke_path opts pts =
           [Save, StrokeStyle (lineColor opts), LineWidth (lineWidth opts),
            LineJoin ''round'', LineCap ''round'', BeginPath,
            MoveTo (px (pts ! 0)) (py (pts ! 0))]
           @ map (\<lambda>i. quad_to (pts ! i) (midpoint (pts ! i) (pts ! (i + 1))))
               [1..<length pts - 2]
           @ [quad_to (pts ! (length pts - 2)) (pts ! (length pts - 1)), Stroke, Restore]
         \<and> quad_segments (stroke_path opts pts) =
             map (\<lambda>i. (pts ! i, midpoint (pts ! i) (pts ! (i + 1)))) [1..<length pts - 2]
             @ [(pts ! (length pts - 2), last pts)]"
proof -
  have l: "last pts = pts ! (length pts - 1)"
    using assms by (cases pts) (simp_all add: last_conv_nth)
  show ?thesis
    by (simp add: stroke_path_def quad_loop_map quad_segments_append
        quad_segments_map_quad_to l) (simp add: quad_to_def)
qed

theorem stroke_path_segments_witness:
  "2 \<le> length [\<lparr>px = Fin 0, py = Fin 0\<rparr>, \<lparr>px = Fin 2, py = Fin 0\<rparr>,
       \<lparr>px = Fin 4, py = Fin 2\<rparr>, \<lparr>px = Fin 6, py = Fin 6\<rparr>]
   \<and> quad_segments (stroke_path default_options
        [\<lparr>px = Fin 0, py = Fin 0\<rparr>, \<lparr>px = Fin 2, py = Fin 0\<rparr>,
         \<lparr>px = Fin 4, py = Fin 2\<rparr>, \<lparr>px = Fin 6, py = Fin 6\<rparr>]) =
       [(\<lparr>px = Fin 2, py = Fin 0\<rparr>, \<lparr>px = Fin 3, py = Fin 1\<rparr>),
        (\<lparr>px = Fin 4, py = Fin 2\<rparr>, \<lparr>px = Fin 6, py = Fin 6\<rparr>)]"
  using stroke_path_segments [of "[\<lparr>px = Fin 0, py = Fin 0\<rparr>, \<lparr>px = Fin 2, py = Fin 0\<rparr>,
     \<lparr>px = Fin 4, py = Fin 2\<rparr>, \<lparr>px = Fin 6, py = Fin 6\<rparr>]" default_options]
  by (simp add: midpoint_def quad_to_def upt_conv_Cons)

text \<open>
  The claim C2 as stated fails for the first pair. Rendering \<open>[1, 6, 11]\<close> under the
  default configuration maps the points \<open>(76, 89)\<close>, \<open>(108.5, 115)\<close> and \<open>(141, 141)\<close>;
  the pair \<open>(p_0, p_1)\<close> is not the last pair, yet the trace has no quadratic segment with
  control point \<open>p_0\<close> and end point the midpoint of \<open>p_0\<close> and \<open>p_1\<close>.
\<close>

theorem first_pair_counterexample:
  "render_points [1, 6, 11] None (new_generator blank_canvas no_options None) =
     [\<lparr>px = Fin 76, py = Fin 89\<rparr>, \<lparr>px = Fin 108.5, py = Fin 115\<rparr>,
      \<lparr>px = Fin 141, py = Fin 141\<rparr>]
   \<and> (\<lparr>px = Fin 76, py = Fin 89\<rparr>,
       midpoint \<lparr>px = Fin 76, py = Fin 89\<rparr> \<lparr>px = Fin 108.5, py = Fin 115\<rparr>)
     \<notin> set (quad_segments
         (ctx (render (Some [1, 6, 11]) None (new_generator blank_canvas no_options None))))"
  by (simp add: render_defs render_points_def new_generator_options new_generator_ctx
      rc_default_1 rc_default_6 rc_default_11 quad_loop.simps midpoint_def)
     (simp add: default_options_def)

text \<open>
  C3, as the code has it. For the sequence \<open>[1, 1]\<close> with \<open>N = 4\<close> and the default
  configuration both symbols decode to row 0, column 0; their x-values in grid units are
  0.75 and 1.0 and the span is \<open>{0.75, 1.0}\<close>; the mapped points are \<open>(76, 89)\<close> and
  \<open>(82.5, 89)\<close>; and the path is one quadratic segment whose control point is the first
  mapped point, where the path starts, and whose end point is the second mapped point.
  The render completes with the trace shown.
\<close>

theorem two_point_render:
  "rc default_options 1 = \<lparr>row = Fin 0, col = Fin 0\<rparr>
   \<and> (col (rc default_options 1) + Fin 0.5) + Fin (1 / 4) * Fin (shift default_options)
       = Fin 0.75
   \<and> (col (rc default_options 1) + Fin 0.5) + Fin (2 / 4) * Fin (shift default_options)
       = Fin 1.0
   \<and> spanX default_options (Some [1, 1]) = \<lparr>min_sp = Fin 0.75, max_sp = Fin 1.0\<rparr>
   \<and> render_points [1, 1] None (new_generator blank_canvas no_options None) =
       [\<lparr>px = Fin 76, py = Fin 89\<rparr>, \<lparr>px = Fin 82.5, py = Fin 89\<rparr>]
   \<and> ctx (render (Some [1, 1]) None (new_generator blank_canvas no_options None)) =
       [SetTransform 1 0 0 1 0 0,
        ClearRect (Fin 0) (Fin 0) (Fin 159) (Fin 256), FillStyle ''#0b0f1a'',
        FillRect (Fin 0) (Fin 0) (Fin 159) (Fin 256), Save,
        StrokeStyle ''#00e5ff'', LineWidth 2, LineJoin ''round'',
        LineCap ''round'', BeginPath, MoveTo (Fin 76) (Fin 89),
        QuadraticCurveTo (Fin 76) (Fin 89) (Fin 82.5) (Fin 89), Stroke, Restore]"
  by (simp add: render_defs render_points_def new_generator_options new_generator_ctx
      rc_default_1 quad_loop.simps)
     (simp add: default_options_def)

text \<open>
  The claim C3 as stated fails in its last part: the control point of the only quadratic
  segment drawn for \<open>[1, 1]\<close> is \<open>(76, 89)\<close>, not the second mapped point
  \<open>(82.5, 89)\<close>.
\<close>

theorem two_point_control_counterexample:
  "quad_segments
       (ctx (render (Some [1, 1]) None (new_generator blank_canvas no_options None))) =
     [(\<lparr>px = Fin 76, py = Fin 89\<rparr>, \<lparr>px = Fin 82.5, py = Fin 89\<rparr>)]
   \<and> render_points [1, 1] None (new_generator blank_canvas no_options None) ! 1 =
       \<lparr>px = Fin 82.5, py = Fin 89\<rparr>
   \<and> fst (hd (quad_segments
       (ctx (render (Some [1, 1]) None (new_generator blank_canvas no_options None)))))
     \<noteq> render_points [1, 1] None (new_generator blank_canvas no_options None) ! 1"
  by (simp add: render_defs render_points_def new_generator_options new_generator_ctx
      rc_default_1 quad_loop.simps)
     (simp add: default_options_def)

section \<open>Grid decoding\<close>


lemma trunc_quotient:
  assumes "n \<noteq> 0"
  shows "trunc (rat_of_int z / rat_of_int n) = sgn z * sgn n * (\<bar>z\<bar> div \<bar>n\<bar>)"
proof -
  consider "0 \<le> z" "0 < n" | "z \<le> 0" "n < 0" | "0 < z" "n < 0" | "z < 0" "0 < n"
    using assms by linarith
  then show ?thesis
  proof cases
    case 1
    then show ?thesis
      by (simp add: trunc_def floor_divide_of_int_eq sgn_if)
  next
    case 2
    then have "0 \<le> rat_of_int z / rat_of_int n"
      by (simp add: zero_le_divide_iff)
    moreover have "z div n = (- z) div (- n)" by simp
    ultimately show ?thesis using 2
      by (simp add: trunc_def floor_divide_of_int_eq sgn_if del: div_minus_minus)
  next
    case 3
    then have "\<not> 0 \<le> rat_of_int z / rat_of_int n"
      by (simp add: zero_le_divide_iff)
    moreover have "(- z) div n = z div (- n)"
      using div_minus_minus [of z "- n"] by simp
    ultimately show ?thesis using 3
      by (simp add: trunc_def ceiling_divide_eq_div sgn_if)
  next
    case 4
    then have "\<not> 0 \<le> rat_of_int z / rat_of_int n"
      by (simp add: zero_le_divide_iff)
    then show ?thesis using 4
      by (simp add: trunc_def ceiling_divide_eq_div sgn_if)
  qed
qed

lemma js_rem_int:
  assumes "n \<noteq> 0"
  shows "js_rem (Fin (of_int z)) (Fin (of_int n)) = Fin (of_int (sgn z * (\<bar>z\<bar> mod \<bar>n\<bar>)))"
proof -
  have "z - n * (sgn z * sgn n * (\<bar>z\<bar> div \<bar>n\<bar>)) = sgn z * (\<bar>z\<bar> mod \<bar>n\<bar>)"
  proof -
    have "sgn z * (\<bar>z\<bar> mod \<bar>n\<bar>) = sgn z * (\<bar>z\<bar> - \<bar>n\<bar> * (\<bar>z\<bar> div \<bar>n\<bar>))"
      by (simp add: minus_mult_div_eq_mod)
    also have "\<dots> = sgn z * \<bar>z\<bar> - (sgn n * \<bar>n\<bar>) * (sgn z * sgn n * (\<bar>z\<bar> div \<bar>n\<bar>))"
      using assms by (simp add: algebra_simps sgn_if)
    finally show ?thesis
      by (simp add: mult_sgn_abs)
  qed
  then have "rat_of_int z - rat_of_int n * rat_of_int (sgn z * sgn n * (\<bar>z\<bar> div \<bar>n\<bar>))
      = rat_of_int (sgn z * (\<bar>z\<bar> mod \<bar>n\<bar>))"
    by (metis of_int_diff of_int_mult)
  with assms show ?thesis
    by (simp add: trunc_quotient)
qed

lemma rc_nonzero:
  assumes "N opts \<noteq> 0"
  shows "rc opts n =
           \<lparr>row = Fin (of_int (z_of n div N opts)),
            col = Fin (of_int (sgn (z_of n) * (\<bar>z_of n\<bar> mod \<bar>N opts\<bar>)))\<rparr>"
  using assms
  by (simp add: rc_def Let_def js_rem_int floor_divide_of_int_eq del: js_rem.simps)






section \<open>The span\<close>

lemma col_rc: "N opts \<noteq> 0 \<Longrightarrow> col (rc opts n) = Fin (of_int (col_int opts n))"
  by (simp add: rc_nonzero col_int_def)

lemma xval:
  "N opts \<noteq> 0 \<Longrightarrow>
     (col (rc opts n) + Fin 0.5) + Fin ((of_nat i + 1) / 4) * Fin (shift opts) = Fin (xq opts n i)"
  by (simp add: col_rc xq_def)

lemma spanX_loop_fin:
  "N opts \<noteq> 0 \<Longrightarrow>
     spanX_loop opts ns i (Fin a) (Fin b) =
       \<lparr>min_sp = Fin (fold min (xqs opts ns i) a), max_sp = Fin (fold max (xqs opts ns i) b)\<rparr>"
proof (induction ns arbitrary: i a b)
  case Nil
  then show ?case by simp
next
  case (Cons n ns)
  have "spanX_loop opts (n # ns) i (Fin a) (Fin b) =
          spanX_loop opts ns (i + 1) (Fin (min (xq opts n i) a)) (Fin (max (xq opts n i) b))"
    by (simp only: spanX_loop.simps Let_def xval [OF Cons.prems])
       (simp add: min_def max_def)
  then show ?case
    using Cons by simp
qed

lemma spanX_nonempty:
  assumes "N opts \<noteq> 0" and "xs \<noteq> []"
  shows "spanX opts (Some xs) =
           \<lparr>min_sp = Fin (Min (set (xqs opts xs 0))), max_sp = Fin (Max (set (xqs opts xs 0)))\<rparr>"
proof -
  obtain n ns where xs: "xs = n # ns"
    using assms(2) by (cases xs) auto
  have first: "spanX_loop opts (n # ns) 0 PInf NInf =
          spanX_loop opts ns (0 + 1) (Fin (xq opts n 0)) (Fin (xq opts n 0))"
    by (simp only: spanX_loop.simps Let_def xval [OF assms(1)]) simp
  have mn: "Min (set (xqs opts (n # ns) 0)) = fold min (xqs opts ns (0 + 1)) (xq opts n 0)"
    by (simp only: xqs.simps Min.set_eq_fold)
  have mx: "Max (set (xqs opts (n # ns) 0)) = fold max (xqs opts ns (0 + 1)) (xq opts n 0)"
    by (simp only: xqs.simps Max.set_eq_fold)
  have "spanX opts (Some xs) = spanX_loop opts (n # ns) 0 PInf NInf"
    by (simp add: xs spanX_def)
  then show ?thesis
    by (simp only: first spanX_loop_fin [OF assms(1)] mn mx xs)
qed

lemma length_xqs: "length (xqs opts ns i) = length ns"
  by (induction ns arbitrary: i) simp_all

lemma nth_xqs: "k < length ns \<Longrightarrow> xqs opts ns i ! k = xq opts (ns ! k) (i + k)"
proof (induction ns arbitrary: i k)
  case Nil
  then show ?case by simp
next
  case (Cons n ns)
  then show ?case by (cases k) simp_all
qed

lemma x_at_Suc: "N opts \<noteq> 0 \<Longrightarrow> x_at opts xs (Suc k) = Fin (xq opts (xs ! k) k)"
  using xval [of opts "xs ! k" k] by (simp add: x_at_def add.commute)

text \<open>
  C5. For every non-empty sequence (and a grid size other than zero, so that every column
  is a number), \<^verbatim>\<open>_spanX\<close> returns the minimum and the maximum over the 1-based positions
  \<open>i\<close> of \<open>x_i = (col_i + 0.5) + (i/4) * shift\<close>, where \<open>col_i\<close> is the decoded column of
  the \<open>i\<close>-th symbol: the returned \<open>min\<close> is one of the \<open>x_i\<close> and is below all of them,
  the returned \<open>max\<close> is one of the \<open>x_i\<close> and is above all of them. For the empty and
  for the absent sequence it returns \<open>{min: 0.5, max: 0.5}\<close>.
\<close>

theorem spanX_min_max:
  assumes "N opts \<noteq> 0" and "xs \<noteq> []"
  shows "(\<exists>i\<in>{1..length xs}. min_sp (spanX opts (Some xs)) = x_at opts xs i)
       \<and> (\<forall>i\<in>{1..length xs}. min_sp (spanX opts (Some xs)) \<le> x_at opts xs i)
       \<and> (\<exists>i\<in>{1..length xs}. max_sp (spanX opts (Some xs)) = x_at opts xs i)
       \<and> (\<forall>i\<in>{1..length xs}. x_at opts xs i \<le> max_sp (spanX opts (Some xs)))
       \<and> spanX opts (Some []) = \<lparr>min_sp = Fin 0.5, max_sp = Fin 0.5\<rparr>
       \<and> spanX opts None = \<lparr>min_sp = Fin 0.5, max_sp = Fin 0.5\<rparr>"
proof -
  let ?qs = "xqs opts xs 0"
  have ne: "set ?qs \<noteq> {}" and fin: "finite (set ?qs)"
    using assms(2) length_xqs [of opts xs 0] by auto
  have at: "x_at opts xs (Suc k) = Fin (?qs ! k)" if "k < length xs" for k
    using that assms(1) by (simp add: x_at_Suc nth_xqs)
  have sp: "spanX opts (Some xs) = \<lparr>min_sp = Fin (Min (set ?qs)), max_sp = Fin (Max (set ?qs))\<rparr>"
    by (rule spanX_nonempty [OF assms])
  have "Min (set ?qs) \<in> set ?qs"
    using ne by simp
  then obtain k where k: "k < length xs" "?qs ! k = Min (set ?qs)"
    by (auto simp: in_set_conv_nth length_xqs)
  then have 1: "\<exists>i\<in>{1..length xs}. min_sp (spanX opts (Some xs)) = x_at opts xs i"
    by (intro bexI [of _ "Suc k"]) (simp_all add: sp at)
  have "Max (set ?qs) \<in> set ?qs"
    using ne by simp
  then obtain j where j: "j < length xs" "?qs ! j = Max (set ?qs)"
    by (auto simp: in_set_conv_nth length_xqs)
  then have 3: "\<exists>i\<in>{1..length xs}. max_sp (spanX opts (Some xs)) = x_at opts xs i"
    by (intro bexI [of _ "Suc j"]) (simp_all add: sp at)
  have 2: "\<forall>i\<in>{1..length xs}. min_sp (spanX opts (Some xs)) \<le> x_at opts xs i"
  proof
    fix i assume "i \<in> {1..length xs}"
    then obtain m where m: "i = Suc m" "m < length xs"
      by (cases i) auto
    then have "?qs ! m \<in> set ?qs"
      by (simp add: length_xqs)
    then have "Min (set ?qs) \<le> ?qs ! m"
      by simp
    then show "min_sp (spanX opts (Some xs)) \<le> x_at opts xs i"
      using m by (simp add: sp at)
  qed
  have 4: "\<forall>i\<in>{1..length xs}. x_at opts xs i \<le> max_sp (spanX opts (Some xs))"
  proof
    fix i assume "i \<in> {1..length xs}"
    then obtain m where m: "i = Suc m" "m < length xs"
      by (cases i) auto
    then have "?qs ! m \<in> set ?qs"
      by (simp add: length_xqs)
    then have "?qs ! m \<le> Max (set ?qs)"
      by simp
    then show "x_at opts xs i \<le> max_sp (spanX opts (Some xs))"
      using m by (simp add: sp at)
  qed
  from 1 2 3 4 show ?thesis
    by (simp add: spanX_def)
qed

theorem spanX_min_max_witness:
  "N default_options \<noteq> 0 \<and> [1, 1] \<noteq> ([] :: int list)
   \<and> x_at default_options [1, 1] 1 = Fin 0.75
   \<and> x_at default_options [1, 1] 2 = Fin 1
   \<and> min_sp (spanX default_options (Some [1, 1])) = x_at default_options [1, 1] 1
   \<and> max_sp (spanX default_options (Some [1, 1])) = x_at default_options [1, 1] 2"
proof -
  have a: "x_at default_options [1, 1] 1 = Fin 0.75" "x_at default_options [1, 1] 2 = Fin 1"
    by (simp_all add: x_at_def rc_default_1) (simp_all add: default_options_def)
  have n: "N default_options \<noteq> 0"
    by (simp add: default_options_def)
  have b: "{1..length [1, 1 :: int]} = {1, 2}"
    by auto
  have c: "[1, 1] \<noteq> ([] :: int list)"
    by simp
  have a': "x_at default_options [1, 1] (Suc 0) = Fin 0.75"
    using a(1) by simp
  note t = spanX_min_max [OF n c, unfolded b]
  from t have "min_sp (spanX default_options (Some [1, 1])) = x_at default_options [1, 1] 1"
    by (auto simp: a a')
  moreover from t have "max_sp (spanX default_options (Some [1, 1])) = x_at default_options [1, 1] 2"
    by (auto simp: a a')
  ultimately show ?thesis
    using n a by simp
qed

section \<open>Mapped points\<close>

lemma Fin_minus [simp]: "Fin u - Fin v = Fin (u - v)"
  by (simp add: minus_jsnum_def)

lemma Math_max_Fin [simp]: "Math_max (Fin u) (Fin v) = Fin (max u v)"
  by (simp add: max_def)




lemma options_new_generator:
  "options (new_generator cv po d) = assign default_options po"
  by (simp add: new_generator_def syncDPR_def Let_def)






section \<open>Width and padding\<close>









lemma spanX_default_1_1:
  "spanX default_options (Some [1, 1]) = \<lparr>min_sp = Fin 0.75, max_sp = Fin 1\<rparr>"
  by (simp add: spanX_def Let_def rc_default_1) (simp add: default_options_def)





text \<open>
  The conditions on the height and on the epsilon floor are needed as well. With
  \<open>H_FIXED = 40\<close>, below twice the margin, the width for \<open>[1]\<close> falls from 44 at
  \<open>PAD = 2\<close> to 42 at \<open>PAD = 10\<close>. With \<open>H_FIXED = 4000048.5\<close> and the one-point span
  held at the floor \<open>1e-6\<close>, the width falls from 50 at \<open>PAD = 0\<close> to 49 at
  \<open>PAD = 2.5e-7\<close>.
\<close>

lemma spanX_single:
  "N opts = 4 \<Longrightarrow> shift opts = 1 \<Longrightarrow>
     spanX opts (Some [1]) = \<lparr>min_sp = Fin (3 / 4), max_sp = Fin (3 / 4)\<rparr>"
  by (simp add: spanX_def Let_def rc_def z_of_small ToInt32_def trunc_def)

lemma width_PAD_needs_height:
  "width (state (chooseCanvasSize (Some [1])
       (new_generator blank_canvas
          (no_options\<lparr>H_FIXED_opt := Some 40, PAD_opt := Some 2\<rparr>) None))) = Fin 44
   \<and> width (state (chooseCanvasSize (Some [1])
       (new_generator blank_canvas
          (no_options\<lparr>H_FIXED_opt := Some 40, PAD_opt := Some 10\<rparr>) None))) = Fin 42"
  by (simp add: chooseCanvasSize_def Let_def options_new_generator assign_def no_options_def
      default_options_def spanX_single)

lemma width_PAD_needs_floor:
  "width (state (chooseCanvasSize (Some [1])
       (new_generator blank_canvas
          (no_options\<lparr>H_FIXED_opt := Some 4000048.5, PAD_opt := Some 0\<rparr>) None))) = Fin 50
   \<and> width (state (chooseCanvasSize (Some [1])
       (new_generator blank_canvas
          (no_options\<lparr>H_FIXED_opt := Some 4000048.5, PAD_opt := Some (1 / 4000000)\<rparr>)
          None))) = Fin 49"
  by (simp add: chooseCanvasSize_def Let_def options_new_generator assign_def no_options_def
      default_options_def spanX_single)

section \<open>Device scale\<close>

lemma dpr_syncDPR:
  "dpr (syncDPR d g) = max 1 (case d of None \<Rightarrow> 1 | Some r \<Rightarrow> if r = 0 then 1 else r)"
  by (simp add: syncDPR_def)

lemma dpr_new_generator:
  "dpr (new_generator cv po d) = max 1 (case d of None \<Rightarrow> 1 | Some r \<Rightarrow> if r = 0 then 1 else r)"
  by (simp add: new_generator_def Let_def dpr_syncDPR)

lemma dpr_render:
  "dpr (render seq d g) = max 1 (case d of None \<Rightarrow> 1 | Some r \<Rightarrow> if r = 0 then 1 else r)"
  by (simp add: render_def dpr_drawPolyline) (simp add: setupCanvas_def Let_def dpr_syncDPR)

lemma canvas_render:
  "canvas (render seq d g) =
     (canvas g)\<lparr>style_width := Some (width (state (render seq d g))),
       style_height := Some (Fin (height (state (render seq d g)))),
       canvas_width := Math_floor (width (state (render seq d g)) * Fin (dpr (render seq d g))),
       canvas_height :=
         Math_floor (Fin (height (state (render seq d g))) * Fin (dpr (render seq d g)))\<rparr>"
  by (simp add: render_def dpr_drawPolyline canvas_drawPolyline state_drawPolyline)
     (simp add: setupCanvas_def Let_def syncDPR_def chooseCanvasSize_def)

lemma width_integral:
  assumes "width (state (chooseCanvasSize seq g)) = Fin w"
  shows "\<exists>k. w = of_int k"
proof -
  have "\<exists>v. width (state (chooseCanvasSize seq g)) = Math_ceil v"
    unfolding chooseCanvasSize_def Let_def
    by (rule exI) (simp del: divide_jsnum.simps plus_jsnum.simps times_jsnum.simps)
  then obtain v where "Math_ceil v = Fin w"
    using assms by metis
  then show ?thesis
    by (cases v) auto
qed

lemma floor_scale:
  fixes r :: rat
  assumes "0 \<le> k" and "1 \<le> r"
  shows "rat_of_int k \<le> of_int \<lfloor>of_int k * r\<rfloor>"
proof -
  have "rat_of_int k * 1 \<le> of_int k * r"
    using assms by (intro mult_left_mono) simp_all
  then have "k \<le> \<lfloor>of_int k * r\<rfloor>"
    by (simp add: le_floor_iff)
  then show ?thesis
    by simp
qed

lemma width_default_1_1:
  "width (state (render (Some [1, 1]) d (new_generator blank_canvas no_options None))) = Fin 159"
  by (simp add: state_render chooseCanvasSize_def Let_def new_generator_options
        spanX_default_1_1)
     (simp add: default_options_def)

text \<open>
  C10, as the code has it. The device scale factor the generator uses is always at least 1:
  at construction and again during every render it is recomputed as the maximum of 1 and
  the host's ratio, with 1 in place of a ratio the host does not report, so a reported
  ratio below 1 is clamped to 1. The backing store gets the resolution
  \<open>floor(width*dpr)\<close> by \<open>floor(height*dpr)\<close>, and this is not smaller than the logical
  size whenever the logical width is a non-negative number and \<open>H_FIXED\<close> is a
  non-negative integer.
\<close>

theorem dpr_at_least_one:
  "1 \<le> dpr (new_generator cv po d)
   \<and> 1 \<le> dpr (render seq d g)
   \<and> dpr (new_generator cv po d) =
       max 1 (case d of None \<Rightarrow> 1 | Some r \<Rightarrow> if r = 0 then 1 else r)
   \<and> dpr (render seq d g) =
       max 1 (case d of None \<Rightarrow> 1 | Some r \<Rightarrow> if r = 0 then 1 else r)
   \<and> (d = None \<longrightarrow> dpr (render seq d g) = 1)
   \<and> (\<forall>r. d = Some r \<and> r < 1 \<longrightarrow> dpr (render seq d g) = 1)
   \<and> canvas_width (canvas (render seq d g)) =
       Math_floor (width (state (render seq d g)) * Fin (dpr (render seq d g)))
   \<and> canvas_height (canvas (render seq d g)) =
       Math_floor (Fin (height (state (render seq d g))) * Fin (dpr (render seq d g)))
   \<and> (\<forall>w k. width (state (render seq d g)) = Fin w \<and> 0 \<le> w
          \<and> H_FIXED (options g) = of_int k \<and> 0 \<le> k \<longrightarrow>
        width (state (render seq d g)) \<le> canvas_width (canvas (render seq d g))
        \<and> Fin (height (state (render seq d g))) \<le> canvas_height (canvas (render seq d g)))"
proof -
  let ?r = "dpr (render seq d g)"
  have r: "1 \<le> ?r"
    by (simp add: dpr_render)
  have size: "width (state (render seq d g)) \<le> canvas_width (canvas (render seq d g))
        \<and> Fin (height (state (render seq d g))) \<le> canvas_height (canvas (render seq d g))"
    if w: "width (state (render seq d g)) = Fin w" "0 \<le> w"
      and h: "H_FIXED (options g) = of_int k" "0 \<le> k" for w k
  proof -
    obtain j where j: "w = of_int j"
      using w(1) width_integral [of seq g w] by (auto simp: state_render)
    then have "0 \<le> j"
      using w(2) by simp
    then have 1: "rat_of_int j \<le> of_int \<lfloor>of_int j * ?r\<rfloor>"
      using r by (rule floor_scale)
    have 2: "rat_of_int k \<le> of_int \<lfloor>of_int k * ?r\<rfloor>"
      using h(2) r by (rule floor_scale)
    have hh: "height (state (render seq d g)) = of_int k"
      by (simp add: state_render chooseCanvasSize_def Let_def h(1))
    show ?thesis
      using 1 2 by (simp add: canvas_render w(1) j hh)
  qed
  show ?thesis
    using size by (auto simp: dpr_new_generator dpr_render canvas_render)
qed


theorem dpr_at_least_one_witness:
  "dpr (render (Some [1, 1]) None (new_generator blank_canvas no_options None)) = 1
   \<and> (1 / 2 :: rat) < 1
   \<and> dpr (render (Some [1, 1]) (Some (1 / 2)) (new_generator blank_canvas no_options None)) = 1
   \<and> width (state (render (Some [1, 1]) (Some (1 / 2))
         (new_generator blank_canvas no_options None))) = Fin 159
   \<and> (0 :: rat) \<le> 159
   \<and> H_FIXED (options (new_generator blank_canvas no_options None)) = of_int 256
   \<and> (0 :: int) \<le> 256
   \<and> width (state (render (Some [1, 1]) (Some (1 / 2))
         (new_generator blank_canvas no_options None)))
       \<le> canvas_width (canvas (render (Some [1, 1]) (Some (1 / 2))
         (new_generator blank_canvas no_options None)))
   \<and> Fin (height (state (render (Some [1, 1]) (Some (1 / 2))
         (new_generator blank_canvas no_options None))))
       \<le> canvas_height (canvas (render (Some [1, 1]) (Some (1 / 2))
         (new_generator blank_canvas no_options None)))"
proof -
  let ?g = "new_generator blank_canvas no_options None"
  have h: "H_FIXED (options ?g) = of_int 256"
    by (simp add: new_generator_options default_options_def)
  note a = dpr_at_least_one [of blank_canvas no_options None "Some [1, 1]" ?g]
  note b = dpr_at_least_one [of blank_canvas no_options "Some (1 / 2)" "Some [1, 1]" ?g]
  from a have 1: "dpr (render (Some [1, 1]) None ?g) = 1"
    by simp
  from b have 2: "dpr (render (Some [1, 1]) (Some (1 / 2)) ?g) = 1"
    by simp
  from b have "\<forall>w k. width (state (render (Some [1, 1]) (Some (1 / 2)) ?g)) = Fin w \<and> 0 \<le> w
          \<and> H_FIXED (options ?g) = of_int k \<and> 0 \<le> k \<longrightarrow>
        width (state (render (Some [1, 1]) (Some (1 / 2)) ?g))
          \<le> canvas_width (canvas (render (Some [1, 1]) (Some (1 / 2)) ?g))
        \<and> Fin (height (state (render (Some [1, 1]) (Some (1 / 2)) ?g)))
          \<le> canvas_height (canvas (render (Some [1, 1]) (Some (1 / 2)) ?g))"
    by blast
  then have 3: "width (state (render (Some [1, 1]) (Some (1 / 2)) ?g))
          \<le> canvas_width (canvas (render (Some [1, 1]) (Some (1 / 2)) ?g))
        \<and> Fin (height (state (render (Some [1, 1]) (Some (1 / 2)) ?g)))
          \<le> canvas_height (canvas (render (Some [1, 1]) (Some (1 / 2)) ?g))"
    using width_default_1_1 [of "Some (1 / 2)"] h
    by (elim allE [of _ 159] allE [of _ 256]) simp
  show ?thesis
    using 1 2 3 h width_default_1_1 [of "Some (1 / 2)"] by simp
qed

text \<open>
  The claim C10 as stated fails in its last part for a fixed height that is not an
  integer: with \<open>H_FIXED = 100.5\<close> and no ratio reported by the host the logical height
  is \<open>100.5\<close> and the backing store gets the height \<open>floor(100.5 * 1) = 100\<close>.
\<close>

theorem backing_store_counterexample:
  "height (state (render (Some [1, 1]) None
       (new_generator blank_canvas (no_options\<lparr>H_FIXED_opt := Some 100.5\<rparr>) None))) = 100.5
   \<and> dpr (render (Some [1, 1]) None
       (new_generator blank_canvas (no_options\<lparr>H_FIXED_opt := Some 100.5\<rparr>) None)) = 1
   \<and> canvas_height (canvas (render (Some [1, 1]) None
       (new_generator blank_canvas (no_options\<lparr>H_FIXED_opt := Some 100.5\<rparr>) None))) = Fin 100
   \<and> canvas_height (canvas (render (Some [1, 1]) None
       (new_generator blank_canvas (no_options\<lparr>H_FIXED_opt := Some 100.5\<rparr>) None)))
       < Fin (height (state (render (Some [1, 1]) None
           (new_generator blank_canvas (no_options\<lparr>H_FIXED_opt := Some 100.5\<rparr>) None))))"
  by (simp add: canvas_render state_render dpr_render chooseCanvasSize_def Let_def
      options_new_generator assign_def no_options_def)

end
